theory Spec2Isabelle
  imports Main
begin

section \<open>Data model of \<^verbatim>\<open>xiterable.hpp\<close>\<close>

text \<open>
  The file defines two CRTP base classes, \<^verbatim>\<open>xconst_iterable<D>\<close> and
  \<^verbatim>\<open>xiterable<D>\<close>. Every member function builds an iterator from three things
  the derived class \<^verbatim>\<open>D\<close> supplies: \<^verbatim>\<open>shape()\<close>, \<^verbatim>\<open>stepper_begin(shape)\<close> and
  \<^verbatim>\<open>stepper_end(shape, l)\<close>.

  A shape is a sequence of extents. A layout is a template argument of every member
  function (default \<^verbatim>\<open>DEFAULT_LAYOUT\<close>, a macro defined outside the file); here it is an
  explicit argument, so a statement for every layout covers the default one.
\<close>

type_synonym addr = nat
type_synonym shape_t = "nat list"
type_synonym index_t = "nat list"

text \<open>The enumeration \<^verbatim>\<open>layout_type\<close> is declared outside the file; the two traversal
  orders the specification names are kept.\<close>

datatype layout_type = row_major | column_major

text \<open>A C++ reference to an object: where the object lives and what it holds now.
  \<^verbatim>\<open>&r\<close> is \<open>address_of r\<close>, reading \<^verbatim>\<open>r\<close> is \<open>referent r\<close>.\<close>

datatype 'a ref = Ref (address_of: addr) (referent: 'a)

text \<open>
  The shape argument of the constructor. The layout iterators are
  \<^verbatim>\<open>xiterator<stepper, inner_shape_type*, L>\<close> (lines 47-55) and are given
  \<^verbatim>\<open>&get_shape()\<close>, a pointer: \<open>Shape_ptr\<close>. The broadcast iterators are
  \<^verbatim>\<open>xiterator<stepper, S, L>\<close> (lines 57-66) and are given the caller's shape, which
  the entry points receive by const reference and pass on as it is: \<open>Shape_val\<close>
  records the shape that is passed. How \<^verbatim>\<open>xiterator\<close> keeps its shape argument is
  declared in \<^verbatim>\<open>xiterator.hpp\<close>, which is not among the sources, and is left open.
\<close>

datatype shape_slot = Shape_ptr addr | Shape_val shape_t

text \<open>
  An iterator as the constructor call \<^verbatim>\<open>xiterator<It, S, L>(it, shape, reverse)\<close>
  determines it: the stepper, the shape argument, the layout \<^verbatim>\<open>L\<close> of its type and
  the \<^verbatim>\<open>reverse\<close> flag.
\<close>

record 'st xiterator =
  it_stepper :: 'st
  it_shape :: shape_slot
  it_layout :: layout_type
  it_reverse :: bool

text \<open>\<^verbatim>\<open>std::reverse_iterator<I>\<close> wraps a forward iterator.\<close>

datatype 'i reverse_iterator = Reverse (base: 'i)

text \<open>
  The derived class as the two base classes see it. \<^verbatim>\<open>stepper_begin\<close> and
  \<^verbatim>\<open>stepper_end\<close> are overloaded on constness: the non-const overloads return a
  \<^verbatim>\<open>stepper\<close> (type \<open>'st\<close>), the const ones a \<^verbatim>\<open>const_stepper\<close> (type \<open>'cst\<close>).
\<close>

record ('st, 'cst) derived =
  shape :: "shape_t ref"
  stepper_begin :: "shape_t \<Rightarrow> 'st"
  stepper_end :: "shape_t \<Rightarrow> layout_type \<Rightarrow> 'st"
  stepper_begin_const :: "shape_t \<Rightarrow> 'cst"
  stepper_end_const :: "shape_t \<Rightarrow> layout_type \<Rightarrow> 'cst"

section \<open>\<^verbatim>\<open>xconst_iterable\<close>\<close>

subsection \<open>Private helpers (lines 363-412)\<close>

definition get_shape :: "('st, 'cst) derived \<Rightarrow> shape_t ref" where
  "get_shape d = shape d"

definition get_stepper_begin_const :: "('st, 'cst) derived \<Rightarrow> shape_t \<Rightarrow> 'cst" where
  "get_stepper_begin_const d s = stepper_begin_const d s"

definition get_stepper_end_const ::
  "('st, 'cst) derived \<Rightarrow> shape_t \<Rightarrow> layout_type \<Rightarrow> 'cst" where
  "get_stepper_end_const d s l = stepper_end_const d s l"

definition get_cbegin :: "('st, 'cst) derived \<Rightarrow> layout_type \<Rightarrow> bool \<Rightarrow> 'cst xiterator" where
  "get_cbegin d L reverse =
     \<lparr>it_stepper = get_stepper_begin_const d (referent (get_shape d)),
      it_shape = Shape_ptr (address_of (get_shape d)),
      it_layout = L, it_reverse = reverse\<rparr>"

definition get_cend :: "('st, 'cst) derived \<Rightarrow> layout_type \<Rightarrow> bool \<Rightarrow> 'cst xiterator" where
  "get_cend d L reverse =
     \<lparr>it_stepper = get_stepper_end_const d (referent (get_shape d)) L,
      it_shape = Shape_ptr (address_of (get_shape d)),
      it_layout = L, it_reverse = reverse\<rparr>"

text \<open>The broadcast overloads take the caller's shape by const reference.\<close>

definition get_cbegin_bc ::
  "('st, 'cst) derived \<Rightarrow> shape_t ref \<Rightarrow> layout_type \<Rightarrow> bool \<Rightarrow> 'cst xiterator" where
  "get_cbegin_bc d sh L reverse =
     \<lparr>it_stepper = get_stepper_begin_const d (referent sh),
      it_shape = Shape_val (referent sh),
      it_layout = L, it_reverse = reverse\<rparr>"

definition get_cend_bc ::
  "('st, 'cst) derived \<Rightarrow> shape_t ref \<Rightarrow> layout_type \<Rightarrow> bool \<Rightarrow> 'cst xiterator" where
  "get_cend_bc d sh L reverse =
     \<lparr>it_stepper = get_stepper_end_const d (referent sh) L,
      it_shape = Shape_val (referent sh),
      it_layout = L, it_reverse = reverse\<rparr>"

subsection \<open>Constant iterators (lines 91-130)\<close>

definition cbegin :: "('st, 'cst) derived \<Rightarrow> layout_type \<Rightarrow> 'cst xiterator" where
  "cbegin d L = get_cbegin d L False"

definition cend :: "('st, 'cst) derived \<Rightarrow> layout_type \<Rightarrow> 'cst xiterator" where
  "cend d L = get_cend d L False"

definition begin_const :: "('st, 'cst) derived \<Rightarrow> layout_type \<Rightarrow> 'cst xiterator" where
  "begin_const d L = cbegin d L"

definition end_const :: "('st, 'cst) derived \<Rightarrow> layout_type \<Rightarrow> 'cst xiterator" where
  "end_const d L = cend d L"

subsection \<open>Constant reverse iterators (lines 142-181)\<close>

definition crbegin ::
  "('st, 'cst) derived \<Rightarrow> layout_type \<Rightarrow> 'cst xiterator reverse_iterator" where
  "crbegin d L = Reverse (get_cend d L True)"

definition crend ::
  "('st, 'cst) derived \<Rightarrow> layout_type \<Rightarrow> 'cst xiterator reverse_iterator" where
  "crend d L = Reverse (get_cbegin d L True)"

definition rbegin_const ::
  "('st, 'cst) derived \<Rightarrow> layout_type \<Rightarrow> 'cst xiterator reverse_iterator" where
  "rbegin_const d L = crbegin d L"

definition rend_const ::
  "('st, 'cst) derived \<Rightarrow> layout_type \<Rightarrow> 'cst xiterator reverse_iterator" where
  "rend_const d L = crend d L"

subsection \<open>Constant broadcast iterators (lines 196-242)\<close>

definition cbegin_bc ::
  "('st, 'cst) derived \<Rightarrow> shape_t ref \<Rightarrow> layout_type \<Rightarrow> 'cst xiterator" where
  "cbegin_bc d sh L = get_cbegin_bc d sh L False"

definition cend_bc ::
  "('st, 'cst) derived \<Rightarrow> shape_t ref \<Rightarrow> layout_type \<Rightarrow> 'cst xiterator" where
  "cend_bc d sh L = get_cend_bc d sh L False"

definition begin_const_bc ::
  "('st, 'cst) derived \<Rightarrow> shape_t ref \<Rightarrow> layout_type \<Rightarrow> 'cst xiterator" where
  "begin_const_bc d sh L = cbegin_bc d sh L"

definition end_const_bc ::
  "('st, 'cst) derived \<Rightarrow> shape_t ref \<Rightarrow> layout_type \<Rightarrow> 'cst xiterator" where
  "end_const_bc d sh L = cend_bc d sh L"

subsection \<open>Constant reverse broadcast iterators (lines 257-303)\<close>

definition crbegin_bc ::
  "('st, 'cst) derived \<Rightarrow> shape_t ref \<Rightarrow> layout_type \<Rightarrow> 'cst xiterator reverse_iterator" where
  "crbegin_bc d sh L = Reverse (get_cend_bc d sh L True)"

definition crend_bc ::
  "('st, 'cst) derived \<Rightarrow> shape_t ref \<Rightarrow> layout_type \<Rightarrow> 'cst xiterator reverse_iterator" where
  "crend_bc d sh L = Reverse (get_cbegin_bc d sh L True)"

definition rbegin_const_bc ::
  "('st, 'cst) derived \<Rightarrow> shape_t ref \<Rightarrow> layout_type \<Rightarrow> 'cst xiterator reverse_iterator" where
  "rbegin_const_bc d sh L = crbegin_bc d sh L"

definition rend_const_bc ::
  "('st, 'cst) derived \<Rightarrow> shape_t ref \<Rightarrow> layout_type \<Rightarrow> 'cst xiterator reverse_iterator" where
  "rend_const_bc d sh L = crend_bc d sh L"

subsection \<open>Storage iterators (lines 307-360)\<close>

definition storage_begin_const :: "('st, 'cst) derived \<Rightarrow> layout_type \<Rightarrow> 'cst xiterator" where
  "storage_begin_const d L = cbegin d L"

definition storage_end_const :: "('st, 'cst) derived \<Rightarrow> layout_type \<Rightarrow> 'cst xiterator" where
  "storage_end_const d L = cend d L"

definition storage_cbegin :: "('st, 'cst) derived \<Rightarrow> layout_type \<Rightarrow> 'cst xiterator" where
  "storage_cbegin d L = cbegin d L"

definition storage_cend :: "('st, 'cst) derived \<Rightarrow> layout_type \<Rightarrow> 'cst xiterator" where
  "storage_cend d L = cend d L"

definition storage_rbegin_const ::
  "('st, 'cst) derived \<Rightarrow> layout_type \<Rightarrow> 'cst xiterator reverse_iterator" where
  "storage_rbegin_const d L = crbegin d L"

definition storage_rend_const ::
  "('st, 'cst) derived \<Rightarrow> layout_type \<Rightarrow> 'cst xiterator reverse_iterator" where
  "storage_rend_const d L = crend d L"

definition storage_crbegin ::
  "('st, 'cst) derived \<Rightarrow> layout_type \<Rightarrow> 'cst xiterator reverse_iterator" where
  "storage_crbegin d L = crbegin d L"

definition storage_crend ::
  "('st, 'cst) derived \<Rightarrow> layout_type \<Rightarrow> 'cst xiterator reverse_iterator" where
  "storage_crend d L = crend d L"

section \<open>\<^verbatim>\<open>xiterable\<close>\<close>

subsection \<open>Private helpers (lines 626-685)\<close>

definition get_stepper_begin :: "('st, 'cst) derived \<Rightarrow> shape_t \<Rightarrow> 'st" where
  "get_stepper_begin d s = stepper_begin d s"

definition get_stepper_end :: "('st, 'cst) derived \<Rightarrow> shape_t \<Rightarrow> layout_type \<Rightarrow> 'st" where
  "get_stepper_end d s l = stepper_end d s l"

definition get_begin :: "('st, 'cst) derived \<Rightarrow> layout_type \<Rightarrow> bool \<Rightarrow> 'st xiterator" where
  "get_begin d L reverse =
     \<lparr>it_stepper = get_stepper_begin d (referent (get_shape d)),
      it_shape = Shape_ptr (address_of (get_shape d)),
      it_layout = L, it_reverse = reverse\<rparr>"

definition get_end :: "('st, 'cst) derived \<Rightarrow> layout_type \<Rightarrow> bool \<Rightarrow> 'st xiterator" where
  "get_end d L reverse =
     \<lparr>it_stepper = get_stepper_end d (referent (get_shape d)) L,
      it_shape = Shape_ptr (address_of (get_shape d)),
      it_layout = L, it_reverse = reverse\<rparr>"

definition get_begin_bc ::
  "('st, 'cst) derived \<Rightarrow> shape_t ref \<Rightarrow> layout_type \<Rightarrow> bool \<Rightarrow> 'st xiterator" where
  "get_begin_bc d sh L reverse =
     \<lparr>it_stepper = get_stepper_begin d (referent sh),
      it_shape = Shape_val (referent sh),
      it_layout = L, it_reverse = reverse\<rparr>"

definition get_end_bc ::
  "('st, 'cst) derived \<Rightarrow> shape_t ref \<Rightarrow> layout_type \<Rightarrow> bool \<Rightarrow> 'st xiterator" where
  "get_end_bc d sh L reverse =
     \<lparr>it_stepper = get_stepper_end d (referent sh) L,
      it_shape = Shape_val (referent sh),
      it_layout = L, it_reverse = reverse\<rparr>"

subsection \<open>Iterators and reverse iterators (lines 490-530)\<close>

definition begin_mut :: "('st, 'cst) derived \<Rightarrow> layout_type \<Rightarrow> 'st xiterator" where
  "begin_mut d L = get_begin d L False"

definition end_mut :: "('st, 'cst) derived \<Rightarrow> layout_type \<Rightarrow> 'st xiterator" where
  "end_mut d L = get_end d L False"

definition rbegin_mut ::
  "('st, 'cst) derived \<Rightarrow> layout_type \<Rightarrow> 'st xiterator reverse_iterator" where
  "rbegin_mut d L = Reverse (get_end d L True)"

definition rend_mut ::
  "('st, 'cst) derived \<Rightarrow> layout_type \<Rightarrow> 'st xiterator reverse_iterator" where
  "rend_mut d L = Reverse (get_begin d L True)"

subsection \<open>Broadcast and reverse broadcast iterators (lines 545-596)\<close>

definition begin_mut_bc ::
  "('st, 'cst) derived \<Rightarrow> shape_t ref \<Rightarrow> layout_type \<Rightarrow> 'st xiterator" where
  "begin_mut_bc d sh L = get_begin_bc d sh L False"

definition end_mut_bc ::
  "('st, 'cst) derived \<Rightarrow> shape_t ref \<Rightarrow> layout_type \<Rightarrow> 'st xiterator" where
  "end_mut_bc d sh L = get_end_bc d sh L False"

definition rbegin_mut_bc ::
  "('st, 'cst) derived \<Rightarrow> shape_t ref \<Rightarrow> layout_type \<Rightarrow> 'st xiterator reverse_iterator" where
  "rbegin_mut_bc d sh L = Reverse (get_end_bc d sh L True)"

definition rend_mut_bc ::
  "('st, 'cst) derived \<Rightarrow> shape_t ref \<Rightarrow> layout_type \<Rightarrow> 'st xiterator reverse_iterator" where
  "rend_mut_bc d sh L = Reverse (get_begin_bc d sh L True)"

subsection \<open>Storage iterators (lines 600-623)\<close>

definition storage_begin_mut :: "('st, 'cst) derived \<Rightarrow> layout_type \<Rightarrow> 'st xiterator" where
  "storage_begin_mut d L = begin_mut d L"

definition storage_end_mut :: "('st, 'cst) derived \<Rightarrow> layout_type \<Rightarrow> 'st xiterator" where
  "storage_end_mut d L = end_mut d L"

definition storage_rbegin_mut ::
  "('st, 'cst) derived \<Rightarrow> layout_type \<Rightarrow> 'st xiterator reverse_iterator" where
  "storage_rbegin_mut d L = rbegin_mut d L"

definition storage_rend_mut ::
  "('st, 'cst) derived \<Rightarrow> layout_type \<Rightarrow> 'st xiterator reverse_iterator" where
  "storage_rend_mut d L = rend_mut d L"

section \<open>Steppers, iterator operators and traversal\<close>

text \<open>
  Modelled from the spec: the Stepper of sections 3 and 4.3. The stepper classes
  belong to the derived class and are not in \<^verbatim>\<open>xiterable.hpp\<close>. A Stepper supports a
  single-step advance, a dereference and equality (here: equality of values); its
  logical position is a multi-index into the driving shape. The Reverse Adaptor
  decrements the cursor, so a single-step retreat is part of the interface. Since
  \<^verbatim>\<open>stepper_begin(shape)\<close> is not given a layout, the layout reaches the stepper with
  each step.
\<close>

record ('st, 'a) stepper_ops =
  st_advance :: "layout_type \<Rightarrow> 'st \<Rightarrow> 'st"
  st_retreat :: "layout_type \<Rightarrow> 'st \<Rightarrow> 'st"
  st_position :: "'st \<Rightarrow> index_t"
  st_deref :: "'st \<Rightarrow> 'a"

text \<open>
  Modelled from the spec: \<^verbatim>\<open>operator++\<close> of \<^verbatim>\<open>xiterator\<close> (\<^verbatim>\<open>xiterator.hpp\<close> is not
  among the sources). Section 4.4: there is exactly one position-advancement
  algorithm, the Stepper's; the iterator advances its Stepper under its own layout.
  The shape, the layout and the direction are fixed at construction.
\<close>

definition it_increment :: "('st, 'a) stepper_ops \<Rightarrow> 'st xiterator \<Rightarrow> 'st xiterator" where
  "it_increment ops it = it\<lparr>it_stepper := st_advance ops (it_layout it) (it_stepper it)\<rparr>"

text \<open>Modelled from the spec: \<^verbatim>\<open>operator--\<close> of \<^verbatim>\<open>xiterator\<close>, which the Reverse Adaptor
  of section 3 needs: the Stepper's logical position is decremented.\<close>

definition it_decrement :: "('st, 'a) stepper_ops \<Rightarrow> 'st xiterator \<Rightarrow> 'st xiterator" where
  "it_decrement ops it = it\<lparr>it_stepper := st_retreat ops (it_layout it) (it_stepper it)\<rparr>"

text \<open>Modelled from the spec: \<^verbatim>\<open>operator*\<close> of \<^verbatim>\<open>xiterator\<close>: the Stepper's dereference.\<close>

definition it_deref :: "('st, 'a) stepper_ops \<Rightarrow> 'st xiterator \<Rightarrow> 'a" where
  "it_deref ops it = st_deref ops (it_stepper it)"

text \<open>Modelled from the spec: the logical position an iterator stands at, that of its
  Stepper (\<^verbatim>\<open>xiterator.hpp\<close> is not among the sources).\<close>

definition it_position :: "('st, 'a) stepper_ops \<Rightarrow> 'st xiterator \<Rightarrow> index_t" where
  "it_position ops it = st_position ops (it_stepper it)"

text \<open>
  Modelled from the spec: \<^verbatim>\<open>operator==\<close> of \<^verbatim>\<open>xiterator\<close> (\<^verbatim>\<open>xiterator.hpp\<close> is not
  among the sources). Sections 4.3 and 4.4: equality is that of the Steppers, between
  iterators constructed from the same shape reference and layout. The direction is
  not compared. Between iterators of different shape or layout the specification
  leaves the comparison undefined; here it is false. Between two iterators constructed
  with the same direction it is equality of the iterators, which is what \<open>traverse\<close>
  compares by: the two ends of each traversal are constructed with the same direction.
\<close>

definition it_equal :: "'st xiterator \<Rightarrow> 'st xiterator \<Rightarrow> bool" where
  "it_equal a b =
     (it_shape a = it_shape b \<and> it_layout a = it_layout b \<and> it_stepper a = it_stepper b)"

text \<open>Modelled from the spec: equality of two Reverse Adaptors
  (\<^verbatim>\<open>std::reverse_iterator\<close>, not defined in the file) is equality of the iterators they
  wrap.\<close>

definition rev_equal ::
  "'st xiterator reverse_iterator \<Rightarrow> 'st xiterator reverse_iterator \<Rightarrow> bool" where
  "rev_equal r q = it_equal (base r) (base q)"

text \<open>
  Modelled from the spec: the Reverse Adaptor of section 3 (\<^verbatim>\<open>std::reverse_iterator\<close>,
  which is not defined in the file). Advancing it decrements the wrapped iterator,
  dereferencing it reads one step behind the held position, and two adaptors are
  equal when the wrapped iterators are.
\<close>

fun rev_increment ::
  "('st, 'a) stepper_ops \<Rightarrow> 'st xiterator reverse_iterator \<Rightarrow> 'st xiterator reverse_iterator"
  where
  "rev_increment ops (Reverse it) = Reverse (it_decrement ops it)"

fun rev_deref :: "('st, 'a) stepper_ops \<Rightarrow> 'st xiterator reverse_iterator \<Rightarrow> 'a" where
  "rev_deref ops (Reverse it) = it_deref ops (it_decrement ops it)"

fun rev_position :: "('st, 'a) stepper_ops \<Rightarrow> 'st xiterator reverse_iterator \<Rightarrow> index_t" where
  "rev_position ops (Reverse it) = it_position ops (it_decrement ops it)"

text \<open>\<open>iterates f n x\<close> lists \<open>x, f x, \<dots>, f\<^sup>n x\<close>.\<close>

fun iterates :: "('x \<Rightarrow> 'x) \<Rightarrow> nat \<Rightarrow> 'x \<Rightarrow> 'x list" where
  "iterates f 0 x = [x]"
| "iterates f (Suc n) x = x # iterates f n (f x)"

text \<open>
  The consumer's loop \<^verbatim>\<open>for (; it != stop; ++it) out.push_back(*it);\<close>. Nothing in
  the loop bounds it, so it runs on fuel: \<open>None\<close> when the fuel does not reach
  \<open>stop\<close>.
\<close>

fun traverse :: "nat \<Rightarrow> ('x \<Rightarrow> 'x) \<Rightarrow> ('x \<Rightarrow> 'b) \<Rightarrow> 'x \<Rightarrow> 'x \<Rightarrow> 'b list option" where
  "traverse 0 inc der it stop = (if it = stop then Some [] else None)"
| "traverse (Suc n) inc der it stop =
     (if it = stop then Some []
      else map_option (Cons (der it)) (traverse n inc der (inc it) stop))"

subsection \<open>Logical positions in layout order\<close>

text \<open>
  Modelled from the spec: the logical positions of a shape (the multi-indices below
  its extents) and the order a layout prescribes on them. Neither is defined in the
  file. Row-major order lets the last index run fastest, column-major order the
  first, as in the scenario of section 8.
\<close>

definition index_space :: "shape_t \<Rightarrow> index_t set" where
  "index_space s = {p. list_all2 (<) p s}"

fun layout_positions :: "layout_type \<Rightarrow> shape_t \<Rightarrow> index_t list" where
  "layout_positions row_major s = product_lists (map (\<lambda>n. [0..<n]) s)"
| "layout_positions column_major s = map rev (product_lists (map (\<lambda>n. [0..<n]) (rev s)))"

subsection \<open>The Stepper contract\<close>

text \<open>
  Modelled from the spec: the contract of section 4.3 for the factories \<open>sb\<close>
  (\<^verbatim>\<open>stepper_begin\<close>) and \<open>se\<close> (\<^verbatim>\<open>stepper_end\<close>) at a shape \<open>s\<close> with \<open>N\<close> elements and a
  layout \<open>L\<close>. Of the states \<open>sb s\<close>, one advance, \<dots>, \<open>N\<close> advances: the last is
  \<open>se s L\<close> (one past the last position); no two are equal (Steppers are equal only
  after the same number of steps); the first \<open>N\<close> stand at the positions of \<open>s\<close> in
  the order of \<open>L\<close>.
\<close>

definition stepper_contract ::
  "('st, 'a) stepper_ops \<Rightarrow> (shape_t \<Rightarrow> 'st) \<Rightarrow> (shape_t \<Rightarrow> layout_type \<Rightarrow> 'st) \<Rightarrow>
   shape_t \<Rightarrow> layout_type \<Rightarrow> bool" where
  "stepper_contract ops sb se s L =
     (let tr = iterates (st_advance ops L) (prod_list s) (sb s)
      in last tr = se s L \<and> distinct tr \<and>
         map (st_position ops) (butlast tr) = layout_positions L s)"

text \<open>Modelled from the spec: along the same states a retreat undoes an advance
  (section 3, Reverse Adaptor: it decrements the cursor's logical position).\<close>

definition retreat_contract ::
  "('st, 'a) stepper_ops \<Rightarrow> (shape_t \<Rightarrow> 'st) \<Rightarrow> shape_t \<Rightarrow> layout_type \<Rightarrow> bool" where
  "retreat_contract ops sb s L =
     (let tr = iterates (st_advance ops L) (prod_list s) (sb s)
      in map (st_retreat ops L) (tl tr) = butlast tr)"

text \<open>
  Modelled from the spec: what a Stepper yields (sections 4.2 and 4.3). A dereference
  does not depend on how the Stepper got to its position: at each of the positions it
  visits it yields the element \<open>elem p\<close> that the container presents at the logical
  position \<open>p\<close> (for a broadcast shape, the element the position maps to). On an
  unmutated container \<open>elem\<close> is the same for the \<^verbatim>\<open>stepper\<close> and the \<^verbatim>\<open>const_stepper\<close>.
\<close>

definition reads_elements ::
  "('st, 'a) stepper_ops \<Rightarrow> (shape_t \<Rightarrow> 'st) \<Rightarrow> (index_t \<Rightarrow> 'a) \<Rightarrow>
   shape_t \<Rightarrow> layout_type \<Rightarrow> bool" where
  "reads_elements ops sb elem s L =
     (let tr = iterates (st_advance ops L) (prod_list s) (sb s)
      in map (st_deref ops) (butlast tr) = map (\<lambda>st. elem (st_position ops st)) (butlast tr))"

section \<open>The container of the concrete scenario\<close>

text \<open>
  Modelled from the spec: the container of the scenario in section 8, 2 by 3, stored
  row-major with the values 1 to 6. No derived class is among the sources. Its
  stepper is a cursor over a driving shape: a multi-index and a flag for the position
  one past the last. One step increments the index that runs fastest under the
  layout and carries into the next one.
\<close>

record cursor =
  cur_extents :: shape_t
  cur_index :: index_t
  cur_past :: bool

text \<open>Increment and decrement of a multi-index whose fastest index comes first;
  \<open>None\<close> when it wraps around.\<close>

fun incr_index :: "shape_t \<Rightarrow> index_t \<Rightarrow> index_t option" where
  "incr_index (n # ns) (i # js) =
     (if Suc i < n then Some (Suc i # js) else map_option (Cons 0) (incr_index ns js))"
| "incr_index ns js = None"

fun decr_index :: "shape_t \<Rightarrow> index_t \<Rightarrow> index_t option" where
  "decr_index (n # ns) (i # js) =
     (if 0 < i then Some ((i - 1) # js) else map_option (Cons (n - 1)) (decr_index ns js))"
| "decr_index ns js = None"

fun next_index :: "layout_type \<Rightarrow> shape_t \<Rightarrow> index_t \<Rightarrow> index_t option" where
  "next_index row_major s p = map_option rev (incr_index (rev s) (rev p))"
| "next_index column_major s p = incr_index s p"

fun prev_index :: "layout_type \<Rightarrow> shape_t \<Rightarrow> index_t \<Rightarrow> index_t option" where
  "prev_index row_major s p = map_option rev (decr_index (rev s) (rev p))"
| "prev_index column_major s p = decr_index s p"

definition cursor_begin :: "shape_t \<Rightarrow> cursor" where
  "cursor_begin s =
     \<lparr>cur_extents = s, cur_index = replicate (length s) 0, cur_past = (prod_list s = 0)\<rparr>"

definition cursor_end :: "shape_t \<Rightarrow> layout_type \<Rightarrow> cursor" where
  "cursor_end s l = \<lparr>cur_extents = s, cur_index = replicate (length s) 0, cur_past = True\<rparr>"

definition cursor_advance :: "layout_type \<Rightarrow> cursor \<Rightarrow> cursor" where
  "cursor_advance l c =
     (if cur_past c then c
      else case next_index l (cur_extents c) (cur_index c) of
             Some p \<Rightarrow> c\<lparr>cur_index := p\<rparr>
           | None \<Rightarrow> c\<lparr>cur_index := replicate (length (cur_extents c)) 0, cur_past := True\<rparr>)"

definition cursor_retreat :: "layout_type \<Rightarrow> cursor \<Rightarrow> cursor" where
  "cursor_retreat l c =
     (if cur_past c
      then c\<lparr>cur_index := map (\<lambda>n. n - 1) (cur_extents c), cur_past := False\<rparr>
      else case prev_index l (cur_extents c) (cur_index c) of
             Some p \<Rightarrow> c\<lparr>cur_index := p\<rparr>
           | None \<Rightarrow> c)"

text \<open>
  Reading through a cursor: the index is cut to the container's own rank, an index
  along an extent of 1 is 0 (broadcasting), and the row-major offset selects the
  value; \<open>None\<close> outside the storage.
\<close>

definition broadcast_index :: "shape_t \<Rightarrow> index_t \<Rightarrow> index_t" where
  "broadcast_index own p =
     map2 (\<lambda>n i. if n = 1 then 0 else i) own (drop (length p - length own) p)"

definition ravel :: "shape_t \<Rightarrow> index_t \<Rightarrow> nat" where
  "ravel own q = foldl (\<lambda>acc (n, i). acc * n + i) 0 (zip own q)"

definition element_at :: "shape_t \<Rightarrow> int list \<Rightarrow> index_t \<Rightarrow> int option" where
  "element_at own dat p =
     (let off = ravel own (broadcast_index own p)
      in if off < length dat then Some (dat ! off) else None)"

definition cursor_ops :: "shape_t \<Rightarrow> int list \<Rightarrow> (cursor, int option) stepper_ops" where
  "cursor_ops own dat =
     \<lparr>st_advance = cursor_advance, st_retreat = cursor_retreat,
      st_position = cur_index, st_deref = (\<lambda>c. element_at own dat (cur_index c))\<rparr>"

definition example_2x3 :: "(cursor, cursor) derived" where
  "example_2x3 =
     \<lparr>shape = Ref 100 [2, 3],
      stepper_begin = cursor_begin, stepper_end = cursor_end,
      stepper_begin_const = cursor_begin, stepper_end_const = cursor_end\<rparr>"

definition example_ops :: "(cursor, int option) stepper_ops" where
  "example_ops = cursor_ops [2, 3] [1, 2, 3, 4, 5, 6]"

text \<open>A caller's shape the container broadcasts to: two copies of the 2 by 3 block.\<close>

definition example_target :: "shape_t ref" where
  "example_target = Ref 7 [2, 2, 3]"

text \<open>The same container with an extent of 0: no elements.\<close>

definition example_empty :: "(cursor, cursor) derived" where
  "example_empty = example_2x3\<lparr>shape := Ref 100 [2, 0, 3]\<rparr>"

section \<open>Unfolding the entry points\<close>

lemmas helper_defs =
  get_shape_def get_stepper_begin_const_def get_stepper_end_const_def
  get_stepper_begin_def get_stepper_end_def
  get_cbegin_def get_cend_def get_cbegin_bc_def get_cend_bc_def
  get_begin_def get_end_def get_begin_bc_def get_end_bc_def

lemmas const_entry_defs =
  cbegin_def cend_def begin_const_def end_const_def
  crbegin_def crend_def rbegin_const_def rend_const_def
  cbegin_bc_def cend_bc_def begin_const_bc_def end_const_bc_def
  crbegin_bc_def crend_bc_def rbegin_const_bc_def rend_const_bc_def

lemmas mut_entry_defs =
  begin_mut_def end_mut_def rbegin_mut_def rend_mut_def
  begin_mut_bc_def end_mut_bc_def rbegin_mut_bc_def rend_mut_bc_def

lemmas storage_defs =
  storage_begin_const_def storage_end_const_def storage_cbegin_def storage_cend_def
  storage_rbegin_const_def storage_rend_const_def storage_crbegin_def storage_crend_def
  storage_begin_mut_def storage_end_mut_def storage_rbegin_mut_def storage_rend_mut_def

section \<open>Properties of the forwarding layer\<close>

text \<open>
  C6. For every layout, each storage-order entry point of both classes returns the
  iterator of the entry point of the same direction and constness (\<^verbatim>\<open>begin\<close>, \<^verbatim>\<open>end\<close>,
  \<^verbatim>\<open>rbegin\<close>, \<^verbatim>\<open>rend\<close> and their \<^verbatim>\<open>c\<close> forms) under the same layout: the storage
  names introduce no traversal of their own.
\<close>

theorem storage_entry_points_are_default:
  "storage_begin_const d L = begin_const d L \<and>
   storage_end_const d L = end_const d L \<and>
   storage_cbegin d L = cbegin d L \<and>
   storage_cend d L = cend d L \<and>
   storage_rbegin_const d L = rbegin_const d L \<and>
   storage_rend_const d L = rend_const d L \<and>
   storage_crbegin d L = crbegin d L \<and>
   storage_crend d L = crend d L \<and>
   storage_cbegin d L = begin_const d L \<and>
   storage_cend d L = end_const d L \<and>
   storage_crbegin d L = rbegin_const d L \<and>
   storage_crend d L = rend_const d L \<and>
   storage_begin_mut d L = begin_mut d L \<and>
   storage_end_mut d L = end_mut d L \<and>
   storage_rbegin_mut d L = rbegin_mut d L \<and>
   storage_rend_mut d L = rend_mut d L"
  by (simp add: storage_defs begin_const_def end_const_def rbegin_const_def rend_const_def)

text \<open>
  C8. No entry point validates anything or has a failure branch. For every derived
  class, every layout and every caller-supplied shape, compatible with the
  container's own shape or not, each entry point is the iterator constructed from what
  the stepper factory returns for that shape; the reverse ones are the adaptor around
  such an iterator. The result is always an iterator, never an error value.
\<close>

theorem entry_points_forward_unconditionally:
  "begin_const d L =
     \<lparr>it_stepper = stepper_begin_const d (referent (shape d)),
      it_shape = Shape_ptr (address_of (shape d)),
      it_layout = L, it_reverse = False\<rparr> \<and>
   cbegin d L =
     \<lparr>it_stepper = stepper_begin_const d (referent (shape d)),
      it_shape = Shape_ptr (address_of (shape d)),
      it_layout = L, it_reverse = False\<rparr> \<and>
   storage_begin_const d L =
     \<lparr>it_stepper = stepper_begin_const d (referent (shape d)),
      it_shape = Shape_ptr (address_of (shape d)),
      it_layout = L, it_reverse = False\<rparr> \<and>
   storage_cbegin d L =
     \<lparr>it_stepper = stepper_begin_const d (referent (shape d)),
      it_shape = Shape_ptr (address_of (shape d)),
      it_layout = L, it_reverse = False\<rparr> \<and>
   end_const d L =
     \<lparr>it_stepper = stepper_end_const d (referent (shape d)) L,
      it_shape = Shape_ptr (address_of (shape d)),
      it_layout = L, it_reverse = False\<rparr> \<and>
   cend d L =
     \<lparr>it_stepper = stepper_end_const d (referent (shape d)) L,
      it_shape = Shape_ptr (address_of (shape d)),
      it_layout = L, it_reverse = False\<rparr> \<and>
   storage_end_const d L =
     \<lparr>it_stepper = stepper_end_const d (referent (shape d)) L,
      it_shape = Shape_ptr (address_of (shape d)),
      it_layout = L, it_reverse = False\<rparr> \<and>
   storage_cend d L =
     \<lparr>it_stepper = stepper_end_const d (referent (shape d)) L,
      it_shape = Shape_ptr (address_of (shape d)),
      it_layout = L, it_reverse = False\<rparr> \<and>
   rbegin_const d L =
     Reverse \<lparr>it_stepper = stepper_end_const d (referent (shape d)) L,
              it_shape = Shape_ptr (address_of (shape d)),
              it_layout = L, it_reverse = True\<rparr> \<and>
   crbegin d L =
     Reverse \<lparr>it_stepper = stepper_end_const d (referent (shape d)) L,
              it_shape = Shape_ptr (address_of (shape d)),
              it_layout = L, it_reverse = True\<rparr> \<and>
   storage_rbegin_const d L =
     Reverse \<lparr>it_stepper = stepper_end_const d (referent (shape d)) L,
              it_shape = Shape_ptr (address_of (shape d)),
              it_layout = L, it_reverse = True\<rparr> \<and>
   storage_crbegin d L =
     Reverse \<lparr>it_stepper = stepper_end_const d (referent (shape d)) L,
              it_shape = Shape_ptr (address_of (shape d)),
              it_layout = L, it_reverse = True\<rparr> \<and>
   rend_const d L =
     Reverse \<lparr>it_stepper = stepper_begin_const d (referent (shape d)),
              it_shape = Shape_ptr (address_of (shape d)),
              it_layout = L, it_reverse = True\<rparr> \<and>
   crend d L =
     Reverse \<lparr>it_stepper = stepper_begin_const d (referent (shape d)),
              it_shape = Shape_ptr (address_of (shape d)),
              it_layout = L, it_reverse = True\<rparr> \<and>
   storage_rend_const d L =
     Reverse \<lparr>it_stepper = stepper_begin_const d (referent (shape d)),
              it_shape = Shape_ptr (address_of (shape d)),
              it_layout = L, it_reverse = True\<rparr> \<and>
   storage_crend d L =
     Reverse \<lparr>it_stepper = stepper_begin_const d (referent (shape d)),
              it_shape = Shape_ptr (address_of (shape d)),
              it_layout = L, it_reverse = True\<rparr> \<and>
   begin_const_bc d sh L =
     \<lparr>it_stepper = stepper_begin_const d (referent sh),
      it_shape = Shape_val (referent sh),
      it_layout = L, it_reverse = False\<rparr> \<and>
   cbegin_bc d sh L =
     \<lparr>it_stepper = stepper_begin_const d (referent sh),
      it_shape = Shape_val (referent sh),
      it_layout = L, it_reverse = False\<rparr> \<and>
   end_const_bc d sh L =
     \<lparr>it_stepper = stepper_end_const d (referent sh) L,
      it_shape = Shape_val (referent sh),
      it_layout = L, it_reverse = False\<rparr> \<and>
   cend_bc d sh L =
     \<lparr>it_stepper = stepper_end_const d (referent sh) L,
      it_shape = Shape_val (referent sh),
      it_layout = L, it_reverse = False\<rparr> \<and>
   rbegin_const_bc d sh L =
     Reverse \<lparr>it_stepper = stepper_end_const d (referent sh) L,
              it_shape = Shape_val (referent sh),
              it_layout = L, it_reverse = True\<rparr> \<and>
   crbegin_bc d sh L =
     Reverse \<lparr>it_stepper = stepper_end_const d (referent sh) L,
              it_shape = Shape_val (referent sh),
              it_layout = L, it_reverse = True\<rparr> \<and>
   rend_const_bc d sh L =
     Reverse \<lparr>it_stepper = stepper_begin_const d (referent sh),
              it_shape = Shape_val (referent sh),
              it_layout = L, it_reverse = True\<rparr> \<and>
   crend_bc d sh L =
     Reverse \<lparr>it_stepper = stepper_begin_const d (referent sh),
              it_shape = Shape_val (referent sh),
              it_layout = L, it_reverse = True\<rparr> \<and>
   begin_mut d L =
     \<lparr>it_stepper = stepper_begin d (referent (shape d)),
      it_shape = Shape_ptr (address_of (shape d)),
      it_layout = L, it_reverse = False\<rparr> \<and>
   storage_begin_mut d L =
     \<lparr>it_stepper = stepper_begin d (referent (shape d)),
      it_shape = Shape_ptr (address_of (shape d)),
      it_layout = L, it_reverse = False\<rparr> \<and>
   end_mut d L =
     \<lparr>it_stepper = stepper_end d (referent (shape d)) L,
      it_shape = Shape_ptr (address_of (shape d)),
      it_layout = L, it_reverse = False\<rparr> \<and>
   storage_end_mut d L =
     \<lparr>it_stepper = stepper_end d (referent (shape d)) L,
      it_shape = Shape_ptr (address_of (shape d)),
      it_layout = L, it_reverse = False\<rparr> \<and>
   rbegin_mut d L =
     Reverse \<lparr>it_stepper = stepper_end d (referent (shape d)) L,
              it_shape = Shape_ptr (address_of (shape d)),
              it_layout = L, it_reverse = True\<rparr> \<and>
   storage_rbegin_mut d L =
     Reverse \<lparr>it_stepper = stepper_end d (referent (shape d)) L,
              it_shape = Shape_ptr (address_of (shape d)),
              it_layout = L, it_reverse = True\<rparr> \<and>
   rend_mut d L =
     Reverse \<lparr>it_stepper = stepper_begin d (referent (shape d)),
              it_shape = Shape_ptr (address_of (shape d)),
              it_layout = L, it_reverse = True\<rparr> \<and>
   storage_rend_mut d L =
     Reverse \<lparr>it_stepper = stepper_begin d (referent (shape d)),
              it_shape = Shape_ptr (address_of (shape d)),
              it_layout = L, it_reverse = True\<rparr> \<and>
   begin_mut_bc d sh L =
     \<lparr>it_stepper = stepper_begin d (referent sh),
      it_shape = Shape_val (referent sh),
      it_layout = L, it_reverse = False\<rparr> \<and>
   end_mut_bc d sh L =
     \<lparr>it_stepper = stepper_end d (referent sh) L,
      it_shape = Shape_val (referent sh),
      it_layout = L, it_reverse = False\<rparr> \<and>
   rbegin_mut_bc d sh L =
     Reverse \<lparr>it_stepper = stepper_end d (referent sh) L,
              it_shape = Shape_val (referent sh),
              it_layout = L, it_reverse = True\<rparr> \<and>
   rend_mut_bc d sh L =
     Reverse \<lparr>it_stepper = stepper_begin d (referent sh),
              it_shape = Shape_val (referent sh),
              it_layout = L, it_reverse = True\<rparr>"
  by (simp add: storage_defs const_entry_defs mut_entry_defs helper_defs)

text \<open>
  C10. Every begin-side entry point obtains its Stepper from \<^verbatim>\<open>stepper_begin\<close> called
  with the shape only; the layout goes to \<^verbatim>\<open>stepper_end\<close> alone. So for two layouts
  the begin iterators over one shape hold equal Steppers and differ in nothing but
  the layout of the iterator.
\<close>

theorem begin_stepper_is_layout_independent:
  "it_stepper (begin_const d L1) = it_stepper (begin_const d L2) \<and>
   it_stepper (cbegin d L1) = it_stepper (cbegin d L2) \<and>
   it_stepper (begin_mut d L1) = it_stepper (begin_mut d L2) \<and>
   it_stepper (begin_const_bc d sh L1) = it_stepper (begin_const_bc d sh L2) \<and>
   it_stepper (cbegin_bc d sh L1) = it_stepper (cbegin_bc d sh L2) \<and>
   it_stepper (begin_mut_bc d sh L1) = it_stepper (begin_mut_bc d sh L2) \<and>
   begin_const d L1 = (begin_const d L2)\<lparr>it_layout := L1\<rparr> \<and>
   cbegin d L1 = (cbegin d L2)\<lparr>it_layout := L1\<rparr> \<and>
   begin_mut d L1 = (begin_mut d L2)\<lparr>it_layout := L1\<rparr> \<and>
   begin_const_bc d sh L1 = (begin_const_bc d sh L2)\<lparr>it_layout := L1\<rparr> \<and>
   cbegin_bc d sh L1 = (cbegin_bc d sh L2)\<lparr>it_layout := L1\<rparr> \<and>
   begin_mut_bc d sh L1 = (begin_mut_bc d sh L2)\<lparr>it_layout := L1\<rparr> \<and>
   it_stepper (begin_const d L1) = stepper_begin_const d (referent (shape d)) \<and>
   it_stepper (cbegin d L1) = stepper_begin_const d (referent (shape d)) \<and>
   it_stepper (begin_mut d L1) = stepper_begin d (referent (shape d)) \<and>
   it_stepper (begin_const_bc d sh L1) = stepper_begin_const d (referent sh) \<and>
   it_stepper (cbegin_bc d sh L1) = stepper_begin_const d (referent sh) \<and>
   it_stepper (begin_mut_bc d sh L1) = stepper_begin d (referent sh) \<and>
   it_stepper (end_const d L1) = stepper_end_const d (referent (shape d)) L1 \<and>
   it_stepper (cend d L1) = stepper_end_const d (referent (shape d)) L1 \<and>
   it_stepper (end_mut d L1) = stepper_end d (referent (shape d)) L1 \<and>
   it_stepper (end_const_bc d sh L1) = stepper_end_const d (referent sh) L1 \<and>
   it_stepper (cend_bc d sh L1) = stepper_end_const d (referent sh) L1 \<and>
   it_stepper (end_mut_bc d sh L1) = stepper_end d (referent sh) L1"
  by (simp add: const_entry_defs mut_entry_defs helper_defs)

text \<open>
  C1. For every layout, \<^verbatim>\<open>rbegin\<close> equals the Reverse Adaptor applied to \<^verbatim>\<open>end\<close> and
  \<^verbatim>\<open>rend\<close> the Reverse Adaptor applied to \<^verbatim>\<open>begin\<close>; so for the const (\<^verbatim>\<open>crbegin\<close>,
  \<^verbatim>\<open>crend\<close>), the mutable and the broadcast variants. The iterator that \<^verbatim>\<open>rbegin\<close>
  wraps is the one \<^verbatim>\<open>end\<close> returns but for the \<^verbatim>\<open>reverse\<close> flag of its constructor,
  which is set: it has the same Stepper, shape and layout. The Stepper of a reverse
  iterator comes from \<^verbatim>\<open>stepper_end\<close> or \<^verbatim>\<open>stepper_begin\<close>: there is no reverse
  stepper factory.
\<close>

theorem rbegin_is_reverse_of_end:
  "rev_equal (rbegin_const d L) (Reverse (end_const d L)) \<and>
   rev_equal (rend_const d L) (Reverse (begin_const d L)) \<and>
   rev_equal (crbegin d L) (Reverse (cend d L)) \<and>
   rev_equal (crend d L) (Reverse (cbegin d L)) \<and>
   rev_equal (rbegin_mut d L) (Reverse (end_mut d L)) \<and>
   rev_equal (rend_mut d L) (Reverse (begin_mut d L)) \<and>
   rev_equal (rbegin_const_bc d sh L) (Reverse (end_const_bc d sh L)) \<and>
   rev_equal (rend_const_bc d sh L) (Reverse (begin_const_bc d sh L)) \<and>
   rev_equal (crbegin_bc d sh L) (Reverse (cend_bc d sh L)) \<and>
   rev_equal (crend_bc d sh L) (Reverse (cbegin_bc d sh L)) \<and>
   rev_equal (rbegin_mut_bc d sh L) (Reverse (end_mut_bc d sh L)) \<and>
   rev_equal (rend_mut_bc d sh L) (Reverse (begin_mut_bc d sh L)) \<and>
   rbegin_const d L = Reverse ((end_const d L)\<lparr>it_reverse := True\<rparr>) \<and>
   rend_const d L = Reverse ((begin_const d L)\<lparr>it_reverse := True\<rparr>) \<and>
   crbegin d L = Reverse ((cend d L)\<lparr>it_reverse := True\<rparr>) \<and>
   crend d L = Reverse ((cbegin d L)\<lparr>it_reverse := True\<rparr>) \<and>
   rbegin_mut d L = Reverse ((end_mut d L)\<lparr>it_reverse := True\<rparr>) \<and>
   rend_mut d L = Reverse ((begin_mut d L)\<lparr>it_reverse := True\<rparr>) \<and>
   rbegin_const_bc d sh L = Reverse ((end_const_bc d sh L)\<lparr>it_reverse := True\<rparr>) \<and>
   rend_const_bc d sh L = Reverse ((begin_const_bc d sh L)\<lparr>it_reverse := True\<rparr>) \<and>
   crbegin_bc d sh L = Reverse ((cend_bc d sh L)\<lparr>it_reverse := True\<rparr>) \<and>
   crend_bc d sh L = Reverse ((cbegin_bc d sh L)\<lparr>it_reverse := True\<rparr>) \<and>
   rbegin_mut_bc d sh L = Reverse ((end_mut_bc d sh L)\<lparr>it_reverse := True\<rparr>) \<and>
   rend_mut_bc d sh L = Reverse ((begin_mut_bc d sh L)\<lparr>it_reverse := True\<rparr>) \<and>
   it_stepper (base (crbegin d L)) = stepper_end_const d (referent (shape d)) L \<and>
   it_stepper (base (crend d L)) = stepper_begin_const d (referent (shape d)) \<and>
   it_stepper (base (rbegin_mut d L)) = stepper_end d (referent (shape d)) L \<and>
   it_stepper (base (rend_mut d L)) = stepper_begin d (referent (shape d)) \<and>
   it_stepper (base (crbegin_bc d sh L)) = stepper_end_const d (referent sh) L \<and>
   it_stepper (base (crend_bc d sh L)) = stepper_begin_const d (referent sh) \<and>
   it_stepper (base (rbegin_mut_bc d sh L)) = stepper_end d (referent sh) L \<and>
   it_stepper (base (rend_mut_bc d sh L)) = stepper_begin d (referent sh)"
  by (simp add: rev_equal_def it_equal_def const_entry_defs mut_entry_defs helper_defs)

section \<open>Traversal under the Stepper contract\<close>

subsection \<open>Iterating a step function\<close>

lemma length_iterates: "length (iterates f n x) = Suc n"
  by (induction n arbitrary: x) simp_all

lemma iterates_not_Nil: "iterates f n x \<noteq> []"
  by (cases n) simp_all

lemma hd_iterates: "hd (iterates f n x) = x"
  by (cases n) simp_all

lemma last_iterates: "last (iterates f n x) = (f ^^ n) x"
  by (induction n arbitrary: x) (simp_all add: iterates_not_Nil funpow_swap1)

lemma iterates_snoc: "iterates f (Suc n) x = iterates f n x @ [(f ^^ Suc n) x]"
  by (induction n arbitrary: x) (simp_all add: funpow_swap1)

lemma nth_iterates: "k \<le> n \<Longrightarrow> iterates f n x ! k = (f ^^ k) x"
proof (induction n arbitrary: x k)
  case 0
  then show ?case by simp
next
  case (Suc n)
  show ?case
  proof (cases k)
    case 0
    then show ?thesis by simp
  next
    case (Suc j)
    with Suc.prems have "j \<le> n" by simp
    with Suc.IH [of j "f x"] Suc show ?thesis by (simp add: funpow_swap1)
  qed
qed

lemma map_iterates:
  assumes "\<And>y. g (f y) = f' (g y)"
  shows "map g (iterates f n x) = iterates f' n (g x)"
  by (induction n arbitrary: x) (simp_all add: assms)

lemma traverse_iterates:
  assumes "distinct (iterates inc n b)" and "last (iterates inc n b) = e"
  shows "traverse (n + k) inc der b e = Some (map der (butlast (iterates inc n b)))"
  using assms
proof (induction n arbitrary: b)
  case 0
  then show ?case by (cases k) simp_all
next
  case (Suc n)
  from Suc.prems have d: "distinct (iterates inc n (inc b))"
    and nb: "b \<notin> set (iterates inc n (inc b))"
    and l: "last (iterates inc n (inc b)) = e"
    by (simp_all add: iterates_not_Nil)
  have "e \<in> set (iterates inc n (inc b))"
    using l last_in_set [OF iterates_not_Nil] by metis
  with nb have "b \<noteq> e" by auto
  with Suc.IH [OF d l] show ?case by (simp add: iterates_not_Nil)
qed

lemma iterates_retreat:
  assumes "map ret (tl (iterates adv n x)) = butlast (iterates adv n x)"
  shows "iterates ret n (last (iterates adv n x)) = rev (iterates adv n x)"
  using assms
proof (induction n arbitrary: x)
  case 0
  then show ?case by simp
next
  case (Suc n)
  let ?tr = "iterates adv n (adv x)"
  from Suc.prems have m: "map ret ?tr = x # butlast ?tr"
    by (simp add: iterates_not_Nil)
  have ne: "?tr \<noteq> []" by (rule iterates_not_Nil)
  then obtain y ys where tr: "?tr = y # ys" by (cases ?tr) auto
  from m tr have hd: "ret y = x" and tl: "map ret ys = butlast ?tr" by simp_all
  have y: "y = adv x" using tr hd_iterates [of adv n "adv x"] by simp
  from tl tr have "map ret (tl ?tr) = butlast ?tr" by simp
  from Suc.IH [OF this] have ih: "iterates ret n (last ?tr) = rev ?tr" .
  have "(ret ^^ n) (last ?tr) = last (iterates ret n (last ?tr))"
    by (simp add: last_iterates)
  also have "\<dots> = last (rev ?tr)" by (simp add: ih)
  also have "\<dots> = adv x" using ne hd_iterates [of adv n "adv x"] by (simp add: last_rev)
  finally have "(ret ^^ Suc n) (last ?tr) = x" using hd y by simp
  then have "iterates ret (Suc n) (last ?tr) = rev ?tr @ [x]"
    using ih by (simp only: iterates_snoc) 
  then show ?case using ne by simp
qed

lemma length_layout_positions: "length (layout_positions L s) = prod_list s"
proof -
  have "foldr (*) (map length (map (\<lambda>n. [0..<n]) t)) 1 = prod_list t" for t :: "nat list"
    by (induction t) simp_all
  then show ?thesis
    by (cases L) (simp_all add: length_product_lists prod_list.rev del: map_map)
qed

lemma distinct_layout_positions: "distinct (layout_positions L s)"
proof -
  have "distinct (product_lists (map (\<lambda>n. [0..<n]) t))" for t :: "nat list"
    by (rule distinct_product_lists) auto
  then show ?thesis
    by (cases L) (simp_all add: distinct_map)
qed

lemma set_product_upt: "set (product_lists (map (\<lambda>n. [0..<n]) t)) = index_space t"
  by (simp add: product_lists_set index_space_def list_all2_map2)

lemma set_layout_positions: "set (layout_positions L s) = index_space s"
proof (cases L)
  case row_major
  then show ?thesis by (simp add: set_product_upt)
next
  case column_major
  have "rev ` index_space (rev s) = index_space s"
  proof (intro set_eqI iffI)
    fix p assume "p \<in> rev ` index_space (rev s)"
    then obtain q where "p = rev q" "list_all2 (<) q (rev s)" by (auto simp: index_space_def)
    then show "p \<in> index_space s"
      using list_all2_rev [of "(<)" q "rev s"] by (simp add: index_space_def)
  next
    fix p assume "p \<in> index_space s"
    then have "list_all2 (<) (rev p) (rev s)" by (simp add: index_space_def)
    then have "rev p \<in> index_space (rev s)" by (simp add: index_space_def)
    then show "p \<in> rev ` index_space (rev s)" by (metis image_eqI rev_rev_ident)
  qed
  with column_major show ?thesis by (simp add: set_product_upt)
qed

subsection \<open>Iterators follow their steppers\<close>

lemma it_increment_lift:
  "it_increment ops (b\<lparr>it_stepper := st\<rparr>) = b\<lparr>it_stepper := st_advance ops (it_layout b) st\<rparr>"
  by (simp add: it_increment_def)

lemma it_decrement_lift:
  "it_decrement ops (b\<lparr>it_stepper := st\<rparr>) = b\<lparr>it_stepper := st_retreat ops (it_layout b) st\<rparr>"
  by (simp add: it_decrement_def)

lemma iterates_it_increment:
  "iterates (it_increment ops) n (b\<lparr>it_stepper := st\<rparr>) =
   map (\<lambda>t. b\<lparr>it_stepper := t\<rparr>) (iterates (st_advance ops (it_layout b)) n st)"
  by (rule map_iterates [symmetric]) (simp add: it_increment_lift)

lemma inj_stepper_update: "inj (\<lambda>t. b\<lparr>it_stepper := t\<rparr>)"
proof (rule injI)
  fix x y assume "b\<lparr>it_stepper := x\<rparr> = b\<lparr>it_stepper := y\<rparr>"
  then have "it_stepper (b\<lparr>it_stepper := x\<rparr>) = it_stepper (b\<lparr>it_stepper := y\<rparr>)" by simp
  then show "x = y" by simp
qed

text \<open>Forward traversal between two iterators that differ in their stepper only.\<close>

lemma forward_traversal:
  fixes b :: "'st xiterator"
  assumes c: "stepper_contract ops sb se s L"
    and L: "it_layout b = L"
  defines "first \<equiv> b\<lparr>it_stepper := sb s\<rparr>"
  defines "stop \<equiv> b\<lparr>it_stepper := se s L\<rparr>"
  shows "(it_increment ops ^^ prod_list s) first = stop"
    and "k < prod_list s \<Longrightarrow> (it_increment ops ^^ k) first \<noteq> stop"
    and "traverse (prod_list s + j) (it_increment ops) (it_position ops) first stop
         = Some (layout_positions L s)"
    and "traverse (prod_list s + j) (it_increment ops) (it_deref ops) first stop
         = Some (map (st_deref ops) (butlast (iterates (st_advance ops L) (prod_list s) (sb s))))"
proof -
  let ?N = "prod_list s"
  let ?g = "\<lambda>t. b\<lparr>it_stepper := t\<rparr>"
  let ?tr = "iterates (st_advance ops L) ?N (sb s)"
  let ?its = "iterates (it_increment ops) ?N first"
  from c have last: "last ?tr = se s L" and dist: "distinct ?tr"
    and pos: "map (st_position ops) (butlast ?tr) = layout_positions L s"
    by (simp_all add: stepper_contract_def Let_def)
  have its: "?its = map ?g ?tr"
    unfolding first_def using iterates_it_increment [where ops = ops and n = ?N and b = b and st = "sb s"] L by simp
  have d: "distinct ?its"
    unfolding its using dist inj_stepper_update [where b = b]
    by (simp add: distinct_map inj_on_def)
  have l: "last ?its = stop"
    unfolding its stop_def using last by (simp add: last_map iterates_not_Nil)
  from l show "(it_increment ops ^^ ?N) first = stop" by (simp add: last_iterates)
  show "(it_increment ops ^^ k) first \<noteq> stop" if "k < ?N"
  proof
    assume e: "(it_increment ops ^^ k) first = stop"
    have "?its ! k = ?its ! ?N"
      using that e l by (simp add: nth_iterates last_iterates)
    with d that show False
      by (simp add: nth_eq_iff_index_eq length_iterates)
  qed
  have bl: "butlast ?its = map ?g (butlast ?tr)" by (simp add: its map_butlast)
  have "map (it_position ops) (butlast ?its) = map (st_position ops) (butlast ?tr)"
    by (simp add: bl it_position_def)
  with traverse_iterates [OF d l, of j "it_position ops"] pos
  show "traverse (?N + j) (it_increment ops) (it_position ops) first stop
         = Some (layout_positions L s)" by simp
  have "map (it_deref ops) (butlast ?its) = map (st_deref ops) (butlast ?tr)"
    by (simp add: bl it_deref_def)
  with traverse_iterates [OF d l, of j "it_deref ops"]
  show "traverse (?N + j) (it_increment ops) (it_deref ops) first stop
         = Some (map (st_deref ops) (butlast ?tr))" by simp
qed


text \<open>What a forward traversal yields when the Stepper reads the container's
  elements.\<close>

lemma forward_values:
  fixes b :: "'st xiterator"
  assumes c: "stepper_contract ops sb se s L"
    and r: "reads_elements ops sb elem s L"
    and L: "it_layout b = L"
  shows "traverse (prod_list s + j) (it_increment ops) (it_deref ops)
           (b\<lparr>it_stepper := sb s\<rparr>) (b\<lparr>it_stepper := se s L\<rparr>)
         = Some (map elem (layout_positions L s))"
proof -
  let ?tr = "iterates (st_advance ops L) (prod_list s) (sb s)"
  from c have pos: "map (st_position ops) (butlast ?tr) = layout_positions L s"
    by (simp add: stepper_contract_def Let_def)
  from r have "map (st_deref ops) (butlast ?tr) = map elem (map (st_position ops) (butlast ?tr))"
    by (simp add: reads_elements_def Let_def comp_def)
  with pos have "map (st_deref ops) (butlast ?tr) = map elem (layout_positions L s)"
    by simp
  with forward_traversal(4) [OF c L, of j] show ?thesis by simp
qed

lemma rev_increment_lift:
  "rev_increment ops (Reverse (b\<lparr>it_stepper := st\<rparr>)) =
   Reverse (b\<lparr>it_stepper := st_retreat ops (it_layout b) st\<rparr>)"
  by (simp add: it_decrement_lift)

lemma iterates_rev_increment:
  "iterates (rev_increment ops) n (Reverse (b\<lparr>it_stepper := st\<rparr>)) =
   map (\<lambda>t. Reverse (b\<lparr>it_stepper := t\<rparr>)) (iterates (st_retreat ops (it_layout b)) n st)"
  by (rule map_iterates [symmetric]) (simp add: it_decrement_lift)

text \<open>Reverse traversal between the adaptors of two such iterators.\<close>

lemma reverse_traversal:
  fixes b :: "'st xiterator"
  assumes c: "stepper_contract ops sb se s L"
    and r: "retreat_contract ops sb s L"
    and L: "it_layout b = L"
  defines "rfirst \<equiv> Reverse (b\<lparr>it_stepper := se s L\<rparr>)"
  defines "rstop \<equiv> Reverse (b\<lparr>it_stepper := sb s\<rparr>)"
  shows "traverse (prod_list s + j) (rev_increment ops) (rev_deref ops) rfirst rstop
         = Some (rev (map (st_deref ops) (butlast (iterates (st_advance ops L) (prod_list s) (sb s)))))"
    and "traverse (prod_list s + j) (rev_increment ops) (rev_position ops) rfirst rstop
         = Some (rev (layout_positions L s))"
proof -
  let ?N = "prod_list s"
  let ?g = "\<lambda>t. Reverse (b\<lparr>it_stepper := t\<rparr>)"
  let ?tr = "iterates (st_advance ops L) ?N (sb s)"
  let ?ret = "st_retreat ops L"
  let ?rits = "iterates (rev_increment ops) ?N rfirst"
  from c have last: "last ?tr = se s L" and dist: "distinct ?tr"
    and pos: "map (st_position ops) (butlast ?tr) = layout_positions L s"
    by (simp_all add: stepper_contract_def Let_def)
  from r have ret: "map ?ret (tl ?tr) = butlast ?tr"
    by (simp add: retreat_contract_def Let_def)
  have undo: "iterates ?ret ?N (se s L) = rev ?tr"
    using iterates_retreat [OF ret] last by simp
  have rits: "?rits = map ?g (rev ?tr)"
    unfolding rfirst_def
    using iterates_rev_increment [where ops = ops and n = ?N and b = b and st = "se s L"] L undo
    by simp
  have inj: "inj ?g"
  proof (rule injI)
    fix x y assume "?g x = ?g y"
    then have "b\<lparr>it_stepper := x\<rparr> = b\<lparr>it_stepper := y\<rparr>" by simp
    then show "x = y" using inj_stepper_update [where b = b] by (simp add: inj_def)
  qed
  have d: "distinct ?rits"
    unfolding rits using dist inj by (simp add: distinct_map inj_on_def)
  have l: "last ?rits = rstop"
    unfolding rits rstop_def
    by (simp add: last_map iterates_not_Nil last_rev hd_iterates)
  have "butlast (rev ?tr) = rev (tl ?tr)" by (rule butlast_rev)
  then have bl: "butlast ?rits = map ?g (rev (tl ?tr))"
    unfolding rits by (simp only: map_butlast [symmetric])
  have "map (rev_deref ops) (butlast ?rits) = rev (map (st_deref ops) (map ?ret (tl ?tr)))"
    using L by (simp add: bl it_deref_def it_decrement_def rev_map)
  with traverse_iterates [OF d l, of j "rev_deref ops"] ret
  show "traverse (?N + j) (rev_increment ops) (rev_deref ops) rfirst rstop
         = Some (rev (map (st_deref ops) (butlast ?tr)))" by simp
  have "map (rev_position ops) (butlast ?rits) = rev (map (st_position ops) (map ?ret (tl ?tr)))"
    using L by (simp add: bl it_position_def it_decrement_def rev_map)
  with traverse_iterates [OF d l, of j "rev_position ops"] ret pos
  show "traverse (?N + j) (rev_increment ops) (rev_position ops) rfirst rstop
         = Some (rev (layout_positions L s))" by simp
qed

text \<open>The two endpoints of every pair of entry points differ in the stepper only.\<close>

lemma const_endpoints:
  "begin_const d L = (begin_const d L)\<lparr>it_stepper := stepper_begin_const d (referent (shape d))\<rparr>"
  "end_const d L = (begin_const d L)\<lparr>it_stepper := stepper_end_const d (referent (shape d)) L\<rparr>"
  "it_layout (begin_const d L) = L"
  "rbegin_const d L =
     Reverse ((base (rend_const d L))\<lparr>it_stepper := stepper_end_const d (referent (shape d)) L\<rparr>)"
  "rend_const d L =
     Reverse ((base (rend_const d L))\<lparr>it_stepper := stepper_begin_const d (referent (shape d))\<rparr>)"
  "it_layout (base (rend_const d L)) = L"
  by (simp_all add: const_entry_defs helper_defs)

lemma mut_endpoints:
  "begin_mut d L = (begin_mut d L)\<lparr>it_stepper := stepper_begin d (referent (shape d))\<rparr>"
  "end_mut d L = (begin_mut d L)\<lparr>it_stepper := stepper_end d (referent (shape d)) L\<rparr>"
  "it_layout (begin_mut d L) = L"
  "rbegin_mut d L =
     Reverse ((base (rend_mut d L))\<lparr>it_stepper := stepper_end d (referent (shape d)) L\<rparr>)"
  "rend_mut d L =
     Reverse ((base (rend_mut d L))\<lparr>it_stepper := stepper_begin d (referent (shape d))\<rparr>)"
  "it_layout (base (rend_mut d L)) = L"
  by (simp_all add: mut_entry_defs helper_defs)

lemma const_bc_endpoints:
  "begin_const_bc d sh L = (begin_const_bc d sh L)\<lparr>it_stepper := stepper_begin_const d (referent sh)\<rparr>"
  "end_const_bc d sh L = (begin_const_bc d sh L)\<lparr>it_stepper := stepper_end_const d (referent sh) L\<rparr>"
  "it_layout (begin_const_bc d sh L) = L"
  by (simp_all add: const_entry_defs helper_defs)

lemma mut_bc_endpoints:
  "begin_mut_bc d sh L = (begin_mut_bc d sh L)\<lparr>it_stepper := stepper_begin d (referent sh)\<rparr>"
  "end_mut_bc d sh L = (begin_mut_bc d sh L)\<lparr>it_stepper := stepper_end d (referent sh) L\<rparr>"
  "it_layout (begin_mut_bc d sh L) = L"
  by (simp_all add: mut_entry_defs helper_defs)

text \<open>
  C2. Let the Steppers of a container satisfy the contract of section 4.3 at the
  container's own shape, of \<open>N\<close> elements (\<open>N = 0\<close> included), and a layout \<open>L\<close>. Then
  \<open>N\<close> advances take \<^verbatim>\<open>begin\<close> to \<^verbatim>\<open>end\<close>, no smaller number does, and the traversal
  from \<^verbatim>\<open>begin\<close> to \<^verbatim>\<open>end\<close> terminates having visited the positions of the shape in the
  order of \<open>L\<close>: \<open>N\<close> positions, each position of the shape exactly once. So for the
  const and for the mutable iterators.
\<close>

theorem begin_reaches_end_after_N_advances:
  fixes d :: "('st, 'cst) derived"
  assumes "stepper_contract cops (stepper_begin_const d) (stepper_end_const d) (referent (shape d)) L"
    and "stepper_contract mops (stepper_begin d) (stepper_end d) (referent (shape d)) L"
  shows
   "(it_increment cops ^^ prod_list (referent (shape d))) (begin_const d L) = end_const d L \<and>
    (\<forall>k < prod_list (referent (shape d)).
        (it_increment cops ^^ k) (begin_const d L) \<noteq> end_const d L) \<and>
    traverse (prod_list (referent (shape d))) (it_increment cops) (it_position cops)
        (begin_const d L) (end_const d L) = Some (layout_positions L (referent (shape d))) \<and>
    (it_increment mops ^^ prod_list (referent (shape d))) (begin_mut d L) = end_mut d L \<and>
    (\<forall>k < prod_list (referent (shape d)).
        (it_increment mops ^^ k) (begin_mut d L) \<noteq> end_mut d L) \<and>
    traverse (prod_list (referent (shape d))) (it_increment mops) (it_position mops)
        (begin_mut d L) (end_mut d L) = Some (layout_positions L (referent (shape d))) \<and>
    length (layout_positions L (referent (shape d))) = prod_list (referent (shape d)) \<and>
    distinct (layout_positions L (referent (shape d))) \<and>
    set (layout_positions L (referent (shape d))) = index_space (referent (shape d))"
proof -
  let ?s = "referent (shape d)"
  note c = forward_traversal [OF assms(1) const_endpoints(3) [of d L], folded const_endpoints(1,2)]
  note m = forward_traversal [OF assms(2) mut_endpoints(3) [of d L], folded mut_endpoints(1,2)]
  show ?thesis
    using c(1) c(2) c(3) [of 0] m(1) m(2) m(3) [of 0]
      length_layout_positions [of L ?s] distinct_layout_positions [of L ?s]
      set_layout_positions [of L ?s]
    by simp
qed

text \<open>
  On the example container, column-major (six elements), and on the container without
  elements.
\<close>

theorem begin_reaches_end_after_N_advances_witness:
  "stepper_contract example_ops (stepper_begin_const example_2x3) (stepper_end_const example_2x3)
     (referent (shape example_2x3)) column_major \<and>
   stepper_contract example_ops (stepper_begin example_2x3) (stepper_end example_2x3)
     (referent (shape example_2x3)) column_major \<and>
   prod_list (referent (shape example_2x3)) = 6 \<and>
   (it_increment example_ops ^^ 6) (begin_const example_2x3 column_major)
     = end_const example_2x3 column_major \<and>
   (it_increment example_ops ^^ 4) (begin_const example_2x3 column_major)
     \<noteq> end_const example_2x3 column_major \<and>
   traverse 6 (it_increment example_ops) (it_position example_ops)
     (begin_const example_2x3 column_major) (end_const example_2x3 column_major)
     = Some [[0, 0], [1, 0], [0, 1], [1, 1], [0, 2], [1, 2]] \<and>
   traverse 6 (it_increment example_ops) (it_position example_ops)
     (begin_mut example_2x3 column_major) (end_mut example_2x3 column_major)
     = Some [[0, 0], [1, 0], [0, 1], [1, 1], [0, 2], [1, 2]] \<and>
   stepper_contract example_ops (stepper_begin_const example_empty) (stepper_end_const example_empty)
     (referent (shape example_empty)) row_major \<and>
   stepper_contract example_ops (stepper_begin example_empty) (stepper_end example_empty)
     (referent (shape example_empty)) row_major \<and>
   prod_list (referent (shape example_empty)) = 0 \<and>
   begin_const example_empty row_major = end_const example_empty row_major \<and>
   traverse 0 (it_increment example_ops) (it_position example_ops)
     (begin_const example_empty row_major) (end_const example_empty row_major) = Some []"
proof -
  have s: "referent (shape example_2x3) = [2, 3]" by (simp add: example_2x3_def)
  have c: "stepper_contract example_ops (stepper_begin_const example_2x3)
     (stepper_end_const example_2x3) (referent (shape example_2x3)) column_major"
    by code_simp
  have m: "stepper_contract example_ops (stepper_begin example_2x3)
     (stepper_end example_2x3) (referent (shape example_2x3)) column_major"
    by code_simp
  have p: "layout_positions column_major [2, 3] = [[0, 0], [1, 0], [0, 1], [1, 1], [0, 2], [1, 2]]"
    by code_simp
  have n: "prod_list (referent (shape example_2x3)) = 6" by (simp add: s)
  have s0: "referent (shape example_empty) = [2, 0, 3]"
    by (simp add: example_empty_def)
  have c0: "stepper_contract example_ops (stepper_begin_const example_empty)
     (stepper_end_const example_empty) (referent (shape example_empty)) row_major"
    by code_simp
  have m0: "stepper_contract example_ops (stepper_begin example_empty)
     (stepper_end example_empty) (referent (shape example_empty)) row_major"
    by code_simp
  have p0: "layout_positions row_major [2, 0, 3] = []" by code_simp
  have n0: "prod_list (referent (shape example_empty)) = 0" by (simp add: s0)
  have full: ?thesis
    if "(it_increment example_ops ^^ 6) (begin_const example_2x3 column_major)
          = end_const example_2x3 column_major \<and>
        (\<forall>k<6. (it_increment example_ops ^^ k) (begin_const example_2x3 column_major)
          \<noteq> end_const example_2x3 column_major) \<and>
        traverse 6 (it_increment example_ops) (it_position example_ops)
          (begin_const example_2x3 column_major) (end_const example_2x3 column_major)
          = Some [[0, 0], [1, 0], [0, 1], [1, 1], [0, 2], [1, 2]] \<and>
        traverse 6 (it_increment example_ops) (it_position example_ops)
          (begin_mut example_2x3 column_major) (end_mut example_2x3 column_major)
          = Some [[0, 0], [1, 0], [0, 1], [1, 1], [0, 2], [1, 2]]"
      and "begin_const example_empty row_major = end_const example_empty row_major \<and>
        traverse 0 (it_increment example_ops) (it_position example_ops)
          (begin_const example_empty row_major) (end_const example_empty row_major) = Some []"
    using that c m n c0 m0 n0 by simp
  show ?thesis
  proof (rule full)
    from begin_reaches_end_after_N_advances [OF c m] p
    show "(it_increment example_ops ^^ 6) (begin_const example_2x3 column_major)
          = end_const example_2x3 column_major \<and>
        (\<forall>k<6. (it_increment example_ops ^^ k) (begin_const example_2x3 column_major)
          \<noteq> end_const example_2x3 column_major) \<and>
        traverse 6 (it_increment example_ops) (it_position example_ops)
          (begin_const example_2x3 column_major) (end_const example_2x3 column_major)
          = Some [[0, 0], [1, 0], [0, 1], [1, 1], [0, 2], [1, 2]] \<and>
        traverse 6 (it_increment example_ops) (it_position example_ops)
          (begin_mut example_2x3 column_major) (end_mut example_2x3 column_major)
          = Some [[0, 0], [1, 0], [0, 1], [1, 1], [0, 2], [1, 2]]"
      unfolding n s by simp
    from begin_reaches_end_after_N_advances [OF c0 m0] p0
    show "begin_const example_empty row_major = end_const example_empty row_major \<and>
        traverse 0 (it_increment example_ops) (it_position example_ops)
          (begin_const example_empty row_major) (end_const example_empty row_major) = Some []"
      unfolding n0 s0 by simp
  qed
qed

text \<open>
  C5. The const \<^verbatim>\<open>begin\<close> and \<^verbatim>\<open>end\<close> are \<^verbatim>\<open>cbegin\<close> and \<^verbatim>\<open>cend\<close>. The mutable \<^verbatim>\<open>begin\<close>
  and \<^verbatim>\<open>end\<close> are built as \<^verbatim>\<open>cbegin\<close> and \<^verbatim>\<open>cend\<close> are, over the same shape, layout
  and direction, from the non-const overloads of the factories: the stepper type,
  which decides whether a dereference may be written through, is the only
  difference. Let the \<^verbatim>\<open>stepper\<close> and the \<^verbatim>\<open>const_stepper\<close> of a container each satisfy
  the contract of section 4.3 at a shape and a layout and read the elements of the
  same unmutated container. Then the traversals from the mutable \<^verbatim>\<open>begin\<close> to \<^verbatim>\<open>end\<close>,
  from the const \<^verbatim>\<open>begin\<close> to \<^verbatim>\<open>end\<close> and from \<^verbatim>\<open>cbegin\<close> to \<^verbatim>\<open>cend\<close> all terminate, visit
  the same positions in the same order and yield the same values; so over the
  container's own shape and over a caller-supplied shape.
\<close>

theorem const_and_mutable_traversals_agree:
  fixes d :: "('st, 'cst) derived"
    and cops :: "('cst, 'a) stepper_ops" and mops :: "('st, 'a) stepper_ops"
  assumes "stepper_contract cops (stepper_begin_const d) (stepper_end_const d) (referent (shape d)) L"
    and "stepper_contract mops (stepper_begin d) (stepper_end d) (referent (shape d)) L"
    and "reads_elements cops (stepper_begin_const d) elem (referent (shape d)) L"
    and "reads_elements mops (stepper_begin d) elem (referent (shape d)) L"
    and "stepper_contract cops (stepper_begin_const d) (stepper_end_const d) (referent sh) L"
    and "stepper_contract mops (stepper_begin d) (stepper_end d) (referent sh) L"
    and "reads_elements cops (stepper_begin_const d) elem' (referent sh) L"
    and "reads_elements mops (stepper_begin d) elem' (referent sh) L"
  shows
   "begin_const d L = cbegin d L \<and> end_const d L = cend d L \<and>
    begin_const_bc d sh L = cbegin_bc d sh L \<and> end_const_bc d sh L = cend_bc d sh L \<and>
    it_shape (begin_mut d L) = it_shape (cbegin d L) \<and>
    it_layout (begin_mut d L) = it_layout (cbegin d L) \<and>
    it_reverse (begin_mut d L) = it_reverse (cbegin d L) \<and>
    it_shape (end_mut d L) = it_shape (cend d L) \<and>
    it_layout (end_mut d L) = it_layout (cend d L) \<and>
    it_reverse (end_mut d L) = it_reverse (cend d L) \<and>
    it_shape (begin_mut_bc d sh L) = it_shape (cbegin_bc d sh L) \<and>
    it_layout (begin_mut_bc d sh L) = it_layout (cbegin_bc d sh L) \<and>
    it_reverse (begin_mut_bc d sh L) = it_reverse (cbegin_bc d sh L) \<and>
    it_shape (end_mut_bc d sh L) = it_shape (cend_bc d sh L) \<and>
    it_layout (end_mut_bc d sh L) = it_layout (cend_bc d sh L) \<and>
    it_reverse (end_mut_bc d sh L) = it_reverse (cend_bc d sh L) \<and>
    traverse (prod_list (referent (shape d)) + j) (it_increment mops) (it_position mops)
        (begin_mut d L) (end_mut d L) = Some (layout_positions L (referent (shape d))) \<and>
    traverse (prod_list (referent (shape d)) + j) (it_increment cops) (it_position cops)
        (begin_const d L) (end_const d L) = Some (layout_positions L (referent (shape d))) \<and>
    traverse (prod_list (referent (shape d)) + j) (it_increment cops) (it_position cops)
        (cbegin d L) (cend d L) = Some (layout_positions L (referent (shape d))) \<and>
    traverse (prod_list (referent (shape d)) + j) (it_increment mops) (it_deref mops)
        (begin_mut d L) (end_mut d L) = Some (map elem (layout_positions L (referent (shape d)))) \<and>
    traverse (prod_list (referent (shape d)) + j) (it_increment cops) (it_deref cops)
        (begin_const d L) (end_const d L) = Some (map elem (layout_positions L (referent (shape d)))) \<and>
    traverse (prod_list (referent (shape d)) + j) (it_increment cops) (it_deref cops)
        (cbegin d L) (cend d L) = Some (map elem (layout_positions L (referent (shape d)))) \<and>
    traverse (prod_list (referent sh) + j) (it_increment mops) (it_position mops)
        (begin_mut_bc d sh L) (end_mut_bc d sh L) = Some (layout_positions L (referent sh)) \<and>
    traverse (prod_list (referent sh) + j) (it_increment cops) (it_position cops)
        (begin_const_bc d sh L) (end_const_bc d sh L) = Some (layout_positions L (referent sh)) \<and>
    traverse (prod_list (referent sh) + j) (it_increment cops) (it_position cops)
        (cbegin_bc d sh L) (cend_bc d sh L) = Some (layout_positions L (referent sh)) \<and>
    traverse (prod_list (referent sh) + j) (it_increment mops) (it_deref mops)
        (begin_mut_bc d sh L) (end_mut_bc d sh L) = Some (map elem' (layout_positions L (referent sh))) \<and>
    traverse (prod_list (referent sh) + j) (it_increment cops) (it_deref cops)
        (begin_const_bc d sh L) (end_const_bc d sh L) = Some (map elem' (layout_positions L (referent sh))) \<and>
    traverse (prod_list (referent sh) + j) (it_increment cops) (it_deref cops)
        (cbegin_bc d sh L) (cend_bc d sh L) = Some (map elem' (layout_positions L (referent sh)))"
proof -
  have same: "begin_const d L = cbegin d L" "end_const d L = cend d L"
    "begin_const_bc d sh L = cbegin_bc d sh L" "end_const_bc d sh L = cend_bc d sh L"
    by (simp_all add: begin_const_def end_const_def begin_const_bc_def end_const_bc_def)
  have fields:
    "it_shape (begin_mut d L) = it_shape (cbegin d L) \<and>
     it_layout (begin_mut d L) = it_layout (cbegin d L) \<and>
     it_reverse (begin_mut d L) = it_reverse (cbegin d L) \<and>
     it_shape (end_mut d L) = it_shape (cend d L) \<and>
     it_layout (end_mut d L) = it_layout (cend d L) \<and>
     it_reverse (end_mut d L) = it_reverse (cend d L) \<and>
     it_shape (begin_mut_bc d sh L) = it_shape (cbegin_bc d sh L) \<and>
     it_layout (begin_mut_bc d sh L) = it_layout (cbegin_bc d sh L) \<and>
     it_reverse (begin_mut_bc d sh L) = it_reverse (cbegin_bc d sh L) \<and>
     it_shape (end_mut_bc d sh L) = it_shape (cend_bc d sh L) \<and>
     it_layout (end_mut_bc d sh L) = it_layout (cend_bc d sh L) \<and>
     it_reverse (end_mut_bc d sh L) = it_reverse (cend_bc d sh L)"
    by (simp add: const_entry_defs mut_entry_defs helper_defs)
  note cp = forward_traversal(3) [OF assms(1) const_endpoints(3) [of d L], of j,
      folded const_endpoints(1,2)]
  note mp = forward_traversal(3) [OF assms(2) mut_endpoints(3) [of d L], of j,
      folded mut_endpoints(1,2)]
  note cv = forward_values [OF assms(1,3) const_endpoints(3) [of d L], of j,
      folded const_endpoints(1,2)]
  note mv = forward_values [OF assms(2,4) mut_endpoints(3) [of d L], of j,
      folded mut_endpoints(1,2)]
  note cpb = forward_traversal(3) [OF assms(5) const_bc_endpoints(3) [of d sh L], of j,
      folded const_bc_endpoints(1,2)]
  note mpb = forward_traversal(3) [OF assms(6) mut_bc_endpoints(3) [of d sh L], of j,
      folded mut_bc_endpoints(1,2)]
  note cvb = forward_values [OF assms(5,7) const_bc_endpoints(3) [of d sh L], of j,
      folded const_bc_endpoints(1,2)]
  note mvb = forward_values [OF assms(6,8) mut_bc_endpoints(3) [of d sh L], of j,
      folded mut_bc_endpoints(1,2)]
  from same fields cp mp cv mv cpb mpb cvb mvb show ?thesis
    by (simp only: simp_thms)
qed

text \<open>
  On the example container, column-major over its own shape and over the broadcast
  shape: the mutable and the const traversals yield 1, 4, 2, 5, 3, 6.
\<close>

theorem const_and_mutable_traversals_agree_witness:
  "stepper_contract example_ops (stepper_begin_const example_2x3) (stepper_end_const example_2x3)
     (referent (shape example_2x3)) column_major \<and>
   stepper_contract example_ops (stepper_begin example_2x3) (stepper_end example_2x3)
     (referent (shape example_2x3)) column_major \<and>
   reads_elements example_ops (stepper_begin_const example_2x3)
     (element_at [2, 3] [1, 2, 3, 4, 5, 6]) (referent (shape example_2x3)) column_major \<and>
   reads_elements example_ops (stepper_begin example_2x3)
     (element_at [2, 3] [1, 2, 3, 4, 5, 6]) (referent (shape example_2x3)) column_major \<and>
   stepper_contract example_ops (stepper_begin_const example_2x3) (stepper_end_const example_2x3)
     (referent example_target) column_major \<and>
   stepper_contract example_ops (stepper_begin example_2x3) (stepper_end example_2x3)
     (referent example_target) column_major \<and>
   reads_elements example_ops (stepper_begin_const example_2x3)
     (element_at [2, 3] [1, 2, 3, 4, 5, 6]) (referent example_target) column_major \<and>
   reads_elements example_ops (stepper_begin example_2x3)
     (element_at [2, 3] [1, 2, 3, 4, 5, 6]) (referent example_target) column_major \<and>
   traverse 6 (it_increment example_ops) (it_deref example_ops)
     (begin_mut example_2x3 column_major) (end_mut example_2x3 column_major)
     = Some [Some 1, Some 4, Some 2, Some 5, Some 3, Some 6] \<and>
   traverse 6 (it_increment example_ops) (it_deref example_ops)
     (cbegin example_2x3 column_major) (cend example_2x3 column_major)
     = Some [Some 1, Some 4, Some 2, Some 5, Some 3, Some 6] \<and>
   traverse 6 (it_increment example_ops) (it_position example_ops)
     (begin_mut example_2x3 column_major) (end_mut example_2x3 column_major)
     = Some [[0, 0], [1, 0], [0, 1], [1, 1], [0, 2], [1, 2]] \<and>
   traverse 6 (it_increment example_ops) (it_position example_ops)
     (cbegin example_2x3 column_major) (cend example_2x3 column_major)
     = Some [[0, 0], [1, 0], [0, 1], [1, 1], [0, 2], [1, 2]]"
proof -
  have s: "referent (shape example_2x3) = [2, 3]" by (simp add: example_2x3_def)
  have h1: "stepper_contract example_ops (stepper_begin_const example_2x3)
     (stepper_end_const example_2x3) (referent (shape example_2x3)) column_major"
    by code_simp
  have h2: "stepper_contract example_ops (stepper_begin example_2x3)
     (stepper_end example_2x3) (referent (shape example_2x3)) column_major"
    by code_simp
  have h3: "reads_elements example_ops (stepper_begin_const example_2x3)
     (element_at [2, 3] [1, 2, 3, 4, 5, 6]) (referent (shape example_2x3)) column_major"
    by code_simp
  have h4: "reads_elements example_ops (stepper_begin example_2x3)
     (element_at [2, 3] [1, 2, 3, 4, 5, 6]) (referent (shape example_2x3)) column_major"
    by code_simp
  have h5: "stepper_contract example_ops (stepper_begin_const example_2x3)
     (stepper_end_const example_2x3) (referent example_target) column_major"
    by code_simp
  have h6: "stepper_contract example_ops (stepper_begin example_2x3)
     (stepper_end example_2x3) (referent example_target) column_major"
    by code_simp
  have h7: "reads_elements example_ops (stepper_begin_const example_2x3)
     (element_at [2, 3] [1, 2, 3, 4, 5, 6]) (referent example_target) column_major"
    by code_simp
  have h8: "reads_elements example_ops (stepper_begin example_2x3)
     (element_at [2, 3] [1, 2, 3, 4, 5, 6]) (referent example_target) column_major"
    by code_simp
  have p: "layout_positions column_major [2, 3] = [[0, 0], [1, 0], [0, 1], [1, 1], [0, 2], [1, 2]]"
    by code_simp
  have v: "map (element_at [2, 3] [1, 2, 3, 4, 5, 6])
             [[0, 0], [1, 0], [0, 1], [1, 1], [0, 2], [1, 2]]
           = [Some 1, Some 4, Some 2, Some 5, Some 3, Some 6]"
    by code_simp
  from const_and_mutable_traversals_agree [OF h1 h2 h3 h4 h5 h6 h7 h8, of 0]
    h1 h2 h3 h4 h5 h6 h7 h8
  show ?thesis unfolding s p v by simp
qed

text \<open>
  C7. Let the Steppers satisfy the contract at a caller-supplied shape of \<open>M\<close>
  elements and a layout \<open>L\<close>. Then the broadcast \<^verbatim>\<open>begin\<close> reaches the broadcast \<^verbatim>\<open>end\<close>
  after \<open>M\<close> advances and no fewer, and the traversal visits \<open>M\<close> positions, those of
  the supplied shape in the order of \<open>L\<close>.
\<close>

theorem broadcast_traversal_visits_M_positions:
  fixes d :: "('st, 'cst) derived"
  assumes "stepper_contract cops (stepper_begin_const d) (stepper_end_const d) (referent sh) L"
    and "stepper_contract mops (stepper_begin d) (stepper_end d) (referent sh) L"
  shows
   "(it_increment cops ^^ prod_list (referent sh)) (begin_const_bc d sh L) = end_const_bc d sh L \<and>
    (\<forall>k < prod_list (referent sh).
        (it_increment cops ^^ k) (begin_const_bc d sh L) \<noteq> end_const_bc d sh L) \<and>
    traverse (prod_list (referent sh)) (it_increment cops) (it_position cops)
        (begin_const_bc d sh L) (end_const_bc d sh L) = Some (layout_positions L (referent sh)) \<and>
    (it_increment mops ^^ prod_list (referent sh)) (begin_mut_bc d sh L) = end_mut_bc d sh L \<and>
    (\<forall>k < prod_list (referent sh).
        (it_increment mops ^^ k) (begin_mut_bc d sh L) \<noteq> end_mut_bc d sh L) \<and>
    traverse (prod_list (referent sh)) (it_increment mops) (it_position mops)
        (begin_mut_bc d sh L) (end_mut_bc d sh L) = Some (layout_positions L (referent sh)) \<and>
    length (layout_positions L (referent sh)) = prod_list (referent sh)"
proof -
  note c = forward_traversal [OF assms(1) const_bc_endpoints(3) [of d sh L],
      folded const_bc_endpoints(1,2)]
  note m = forward_traversal [OF assms(2) mut_bc_endpoints(3) [of d sh L],
      folded mut_bc_endpoints(1,2)]
  show ?thesis
    using c(1) c(2) c(3) [of 0] m(1) m(2) m(3) [of 0]
      length_layout_positions [of L "referent sh"]
    by simp
qed

text \<open>
  The example container broadcast to a shape of twelve elements.
\<close>

theorem broadcast_traversal_visits_M_positions_witness:
  "stepper_contract example_ops (stepper_begin_const example_2x3) (stepper_end_const example_2x3)
     (referent example_target) row_major \<and>
   stepper_contract example_ops (stepper_begin example_2x3) (stepper_end example_2x3)
     (referent example_target) row_major \<and>
   prod_list (referent example_target) = 12 \<and>
   (it_increment example_ops ^^ 12) (begin_const_bc example_2x3 example_target row_major)
     = end_const_bc example_2x3 example_target row_major \<and>
   (it_increment example_ops ^^ 6) (begin_const_bc example_2x3 example_target row_major)
     \<noteq> end_const_bc example_2x3 example_target row_major \<and>
   map_option length
     (traverse 12 (it_increment example_ops) (it_position example_ops)
       (begin_const_bc example_2x3 example_target row_major)
       (end_const_bc example_2x3 example_target row_major)) = Some 12"
proof -
  have c: "stepper_contract example_ops (stepper_begin_const example_2x3)
     (stepper_end_const example_2x3) (referent example_target) row_major"
    by code_simp
  have m: "stepper_contract example_ops (stepper_begin example_2x3)
     (stepper_end example_2x3) (referent example_target) row_major"
    by code_simp
  have n: "prod_list (referent example_target) = 12" by (simp add: example_target_def)
  from broadcast_traversal_visits_M_positions [OF c m] c m show ?thesis
    unfolding n by simp
qed

text \<open>
  C3. Under the contract, and with a retreat that undoes an advance, the traversal
  from \<^verbatim>\<open>rbegin\<close> to \<^verbatim>\<open>rend\<close> terminates and yields the reverse of what the traversal
  from \<^verbatim>\<open>begin\<close> to \<^verbatim>\<open>end\<close> yields; so for the const and for the mutable iterators.
\<close>

theorem reverse_traversal_is_reversed_forward_traversal:
  fixes d :: "('st, 'cst) derived"
  assumes "stepper_contract cops (stepper_begin_const d) (stepper_end_const d) (referent (shape d)) L"
    and "retreat_contract cops (stepper_begin_const d) (referent (shape d)) L"
    and "stepper_contract mops (stepper_begin d) (stepper_end d) (referent (shape d)) L"
    and "retreat_contract mops (stepper_begin d) (referent (shape d)) L"
  shows
   "(\<exists>xs. traverse (prod_list (referent (shape d)) + j) (it_increment cops) (it_deref cops)
            (begin_const d L) (end_const d L) = Some xs \<and>
          traverse (prod_list (referent (shape d)) + j) (rev_increment cops) (rev_deref cops)
            (rbegin_const d L) (rend_const d L) = Some (rev xs)) \<and>
    (\<exists>ys. traverse (prod_list (referent (shape d)) + j) (it_increment mops) (it_deref mops)
            (begin_mut d L) (end_mut d L) = Some ys \<and>
          traverse (prod_list (referent (shape d)) + j) (rev_increment mops) (rev_deref mops)
            (rbegin_mut d L) (rend_mut d L) = Some (rev ys))"
proof -
  note cf = forward_traversal [OF assms(1) const_endpoints(3) [of d L], folded const_endpoints(1,2)]
  note cr = reverse_traversal [OF assms(1,2) const_endpoints(6) [of d L], folded const_endpoints(4,5)]
  note mf = forward_traversal [OF assms(3) mut_endpoints(3) [of d L], folded mut_endpoints(1,2)]
  note mr = reverse_traversal [OF assms(3,4) mut_endpoints(6) [of d L], folded mut_endpoints(4,5)]
  show ?thesis
    using cf(4) [of j] cr(1) [of j] mf(4) [of j] mr(1) [of j] by simp
qed

text \<open>
  The scenario of section 8: row-major the container yields 1 to 6, in reverse 6
  to 1.
\<close>

theorem reverse_traversal_is_reversed_forward_traversal_witness:
  "stepper_contract example_ops (stepper_begin_const example_2x3) (stepper_end_const example_2x3)
     (referent (shape example_2x3)) row_major \<and>
   retreat_contract example_ops (stepper_begin_const example_2x3)
     (referent (shape example_2x3)) row_major \<and>
   stepper_contract example_ops (stepper_begin example_2x3) (stepper_end example_2x3)
     (referent (shape example_2x3)) row_major \<and>
   retreat_contract example_ops (stepper_begin example_2x3)
     (referent (shape example_2x3)) row_major \<and>
   traverse 6 (it_increment example_ops) (it_deref example_ops)
     (begin_const example_2x3 row_major) (end_const example_2x3 row_major)
     = Some [Some 1, Some 2, Some 3, Some 4, Some 5, Some 6] \<and>
   traverse 6 (rev_increment example_ops) (rev_deref example_ops)
     (rbegin_const example_2x3 row_major) (rend_const example_2x3 row_major)
     = Some [Some 6, Some 5, Some 4, Some 3, Some 2, Some 1]"
proof -
  have s: "referent (shape example_2x3) = [2, 3]" by (simp add: example_2x3_def)
  have c: "stepper_contract example_ops (stepper_begin_const example_2x3)
     (stepper_end_const example_2x3) (referent (shape example_2x3)) row_major"
    by code_simp
  have r: "retreat_contract example_ops (stepper_begin_const example_2x3)
     (referent (shape example_2x3)) row_major"
    by code_simp
  have m: "stepper_contract example_ops (stepper_begin example_2x3)
     (stepper_end example_2x3) (referent (shape example_2x3)) row_major"
    by code_simp
  have q: "retreat_contract example_ops (stepper_begin example_2x3)
     (referent (shape example_2x3)) row_major"
    by code_simp
  have f: "traverse 6 (it_increment example_ops) (it_deref example_ops)
     (begin_const example_2x3 row_major) (end_const example_2x3 row_major)
     = Some [Some 1, Some 2, Some 3, Some 4, Some 5, Some 6]"
    by code_simp
  from reverse_traversal_is_reversed_forward_traversal [OF c r m q, of 0] f c r m q
  show ?thesis unfolding s by simp
qed

end
